theory Spec2Isabelle
  imports Complex_Main
begin

section \<open>Python values used by the RAG core\<close>

text \<open>
  A Python \<open>str\<close> is modelled as a \<open>string\<close>, one \<open>char\<close> per code point (code points
  below 256). Python floats are idealised as reals. The three primitives below are the
  built-ins the retrieval code calls: \<open>str.split()\<close> without arguments, \<open>str.lower()\<close>
  and the substring test \<open>t in s\<close>.
\<close>

definition isspace :: "char \<Rightarrow> bool" where
  "isspace c = ((of_char c :: nat) \<in> {9, 10, 11, 12, 13, 28, 29, 30, 31, 32, 133, 160})"

fun split_from :: "string \<Rightarrow> string \<Rightarrow> string list" where
  "split_from cur [] = (if cur = [] then [] else [cur])"
| "split_from cur (c # cs) =
     (if isspace c then (if cur = [] then split_from [] cs else cur # split_from [] cs)
      else split_from (cur @ [c]) cs)"

definition split :: "string \<Rightarrow> string list" where
  "split s = split_from [] s"

definition lower_char :: "char \<Rightarrow> char" where
  "lower_char c =
     (let n = (of_char c :: nat)
      in if (65 \<le> n \<and> n \<le> 90) \<or> (192 \<le> n \<and> n \<le> 222 \<and> n \<noteq> 215)
         then char_of (n + 32) else c)"

definition lower :: "string \<Rightarrow> string" where
  "lower s = map lower_char s"

fun startswith :: "string \<Rightarrow> string \<Rightarrow> bool" where
  "startswith s [] = True"
| "startswith [] (p # ps) = False"
| "startswith (c # cs) (p # ps) = (c = p \<and> startswith cs ps)"

text \<open>\<open>str_in t s\<close> is Python's \<open>t in s\<close> on two strings.\<close>

fun str_in :: "string \<Rightarrow> string \<Rightarrow> bool" where
  "str_in t [] = (t = [])"
| "str_in t (c # cs) = (startswith (c # cs) t \<or> str_in t cs)"

fun join :: "string \<Rightarrow> string list \<Rightarrow> string" where
  "join sep [] = []"
| "join sep [x] = x"
| "join sep (x # y # ys) = x @ sep @ join sep (y # ys)"

text \<open>
  A \<open>dict\<close> whose iteration order matters is an association list in insertion order.
  Assigning to an existing key keeps its position; a new key goes to the end.
\<close>

fun dict_set :: "'k \<Rightarrow> 'v \<Rightarrow> ('k \<times> 'v) list \<Rightarrow> ('k \<times> 'v) list" where
  "dict_set k v [] = [(k, v)]"
| "dict_set k v ((k', v') # kvs) =
     (if k' = k then (k, v) # kvs else (k', v') # dict_set k v kvs)"

section \<open>Keyword retrieval (rag\_processor.py)\<close>

record knowledge_item =
  ki_text :: "string option"
  ki_source :: "string option"
  ki_created_at :: "real option"

type_synonym knowledge_index = "(string \<times> knowledge_item) list"

record retrieved_info =
  info_id :: string
  info_text :: string
  info_source :: string
  relevance_score :: real

text \<open>\<open>item_data.get("text", "")\<close> and \<open>item_data.get("source", "unknown")\<close>.\<close>

definition get_text :: "knowledge_item \<Rightarrow> string" where
  "get_text item_data = (case ki_text item_data of None \<Rightarrow> [] | Some s \<Rightarrow> s)"

definition get_source :: "knowledge_item \<Rightarrow> string" where
  "get_source item_data = (case ki_source item_data of None \<Rightarrow> ''unknown'' | Some s \<Rightarrow> s)"

definition stop_words :: "string list" where
  "stop_words = [''with'', ''that'', ''from'', ''this'', ''have'', ''they'', ''their'',
     ''what'', ''when'', ''where'', ''which'', ''than'']"

text \<open>The comprehension \<open>[term.lower() for term in s.split() if len(term) > 3]\<close>.\<close>

definition long_terms :: "string \<Rightarrow> string list" where
  "long_terms s = map lower (filter (\<lambda>tm. length tm > 3) (split s))"

text \<open>
  \<open>query_terms\<close> is built as a Python set, updated with the context's terms when the
  context is truthy, and then filtered into a list. The set is modelled as a
  duplicate-free list; its iteration order is not fixed by Python, and the score below
  only counts, so no result depends on it (lemma \<open>match_count_set\<close>).
\<close>

definition query_terms :: "string \<Rightarrow> string option \<Rightarrow> string list" where
  "query_terms query context =
     (let terms = long_terms query;
          terms = (case context of
                     None \<Rightarrow> terms
                   | Some c \<Rightarrow> if c \<noteq> [] then terms @ long_terms c else terms)
      in filter (\<lambda>tm. tm \<notin> set stop_words) (remdups terms))"

definition match_count :: "string list \<Rightarrow> string \<Rightarrow> nat" where
  "match_count terms item_text = length (filter (\<lambda>tm. str_in tm item_text) terms)"

fun score_items :: "string list \<Rightarrow> knowledge_index \<Rightarrow> retrieved_info list" where
  "score_items terms [] = []"
| "score_items terms ((item_id, item_data) # rest) =
     (let score = match_count terms (lower (get_text item_data))
      in if score > 0
         then \<lparr>info_id = item_id, info_text = get_text item_data,
               info_source = get_source item_data,
               relevance_score = real score / real (max 1 (length terms))\<rparr>
              # score_items terms rest
         else score_items terms rest)"

text \<open>
  \<open>results.sort(key=..., reverse=True)\<close> is a stable sort by descending key: the
  stable insertion sort on the negated key.
\<close>

definition sort_by_relevance :: "retrieved_info list \<Rightarrow> retrieved_info list" where
  "sort_by_relevance results = sort_key (\<lambda>r. - relevance_score r) results"

definition retrieve_from_simple_index ::
  "knowledge_index \<Rightarrow> string \<Rightarrow> string option \<Rightarrow> retrieved_info list" where
  "retrieve_from_simple_index index query context =
     take 3 (sort_by_relevance (score_items (query_terms query context) index))"

text \<open>
  The claim's own wording of the scorer: the qualifying terms as a set, and the number of
  them that occur in a text as substrings.
\<close>

definition qualifying_terms :: "string \<Rightarrow> string option \<Rightarrow> string set" where
  "qualifying_terms query context =
     {t. (\<exists>tok. (tok \<in> set (split query) \<or> (\<exists>c. context = Some c \<and> tok \<in> set (split c)))
            \<and> length tok > 3 \<and> t = lower tok) \<and> t \<notin> set stop_words}"

definition occurs_in :: "string \<Rightarrow> string \<Rightarrow> bool" where
  "occurs_in t s = (\<exists>before after. s = before @ t @ after)"

definition terms_found :: "string \<Rightarrow> string option \<Rightarrow> knowledge_item \<Rightarrow> string set" where
  "terms_found query context item_data =
     {t \<in> qualifying_terms query context. occurs_in t (lower (get_text item_data))}"

section \<open>The completion endpoint and the generator (rag\_processor.py)\<close>

text \<open>
  The body of a completion response after \<open>response.json()\<close>. An object is the
  association list of its keys.
\<close>

datatype json =
    JNull
  | JBool bool
  | JNum real
  | JStr string
  | JArr "json list"
  | JObj "(string \<times> json) list"

datatype exn =
    KeyError string
  | IndexError
  | TypeError
  | ValueError string
  | RequestError string
  | OpenAIError exn

text \<open>Subscripting a parsed body: \<open>x[key]\<close> with a string key, and \<open>x[0]\<close>.\<close>

fun getitem_key :: "json \<Rightarrow> string \<Rightarrow> exn + json" where
  "getitem_key (JObj kvs) key =
     (case map_of kvs key of None \<Rightarrow> Inl (KeyError key) | Some v \<Rightarrow> Inr v)"
| "getitem_key other key = Inl TypeError"

fun getitem_0 :: "json \<Rightarrow> exn + json" where
  "getitem_0 (JArr xs) = (case xs of [] \<Rightarrow> Inl IndexError | x # rest \<Rightarrow> Inr x)"
| "getitem_0 (JStr s) = (case s of [] \<Rightarrow> Inl IndexError | c # rest \<Rightarrow> Inr (JStr [c]))"
| "getitem_0 (JObj kvs) = Inl (KeyError ''0'')"
| "getitem_0 other = Inl TypeError"

text \<open>\<open>result["choices"][0]["message"]["content"]\<close>\<close>

definition completion_content :: "json \<Rightarrow> exn + json" where
  "completion_content result =
     (case getitem_key result ''choices'' of
        Inl e \<Rightarrow> Inl e
      | Inr choices \<Rightarrow>
          (case getitem_0 choices of
             Inl e \<Rightarrow> Inl e
           | Inr choice \<Rightarrow>
               (case getitem_key choice ''message'' of
                  Inl e \<Rightarrow> Inl e
                | Inr message \<Rightarrow> getitem_key message ''content'')))"

record chat_payload =
  pl_model :: string
  pl_messages :: "(string \<times> string) list"
  pl_temperature :: real

record http_request =
  req_url :: string
  req_json :: chat_payload
  req_headers :: "(string \<times> string) list"

text \<open>
  The endpoint is a parameter of the model: \<open>post request\<close> is the outcome of
  \<open>client.post\<close>, \<open>raise_for_status\<close> and \<open>response.json()\<close> together, either an
  exception or the parsed body.
\<close>

type_synonym endpoint = "http_request \<Rightarrow> exn + json"

text \<open>
  The result dictionary is built in three places of the source, each time with the same
  four keys; it is a record of these four fields.
\<close>

record rag_result =
  res_query :: string
  res_retrieved_information :: "retrieved_info list"
  res_response :: json
  res_sources :: "string list"

datatype 'a disk_file = Missing | Unreadable | Stored 'a

text \<open>
  What lies outside the processor object: the requests posted so far, the file
  \<open>knowledge_index.json\<close>, and whether that file can be written.
\<close>

record world =
  http_log :: "http_request list"
  index_file :: "knowledge_index disk_file"
  disk_writable :: bool

record rag_processor =
  use_vector_db :: bool
  openai_api_key :: string
  openai_model :: string
  knowledge_dir :: string
  retrieval_cache :: "string \<rightharpoonup> rag_result"
  knowledge_index :: knowledge_index

definition nl :: string where
  "nl = [CHR 0x0A]"

definition system_prompt :: string where
  "system_prompt = nl
     @ ''        You are an AI assistant that provides well-informed responses based on retrieved information. '' @ nl
     @ ''        When analyzing arguments or responding to queries, use the provided context information to enhance your response.'' @ nl
     @ ''        Always cite your sources when using specific information from the context.'' @ nl
     @ ''        ''"

definition context_text :: "retrieved_info list \<Rightarrow> string" where
  "context_text retrieved =
     join (nl @ nl)
       (map (\<lambda>info. ''Information from '' @ info_source info @ '':'' @ nl @ info_text info)
            retrieved)"

definition user_prompt :: "string \<Rightarrow> retrieved_info list \<Rightarrow> string" where
  "user_prompt query retrieved = nl
     @ ''        Query: '' @ query @ nl
     @ ''        '' @ nl
     @ ''        Retrieved Context Information:'' @ nl
     @ ''        '' @ context_text retrieved @ nl
     @ ''        '' @ nl
     @ ''        Based on this information, provide a detailed and well-informed response. Cite sources when appropriate.'' @ nl
     @ ''        ''"

definition completion_request :: "rag_processor \<Rightarrow> string \<Rightarrow> retrieved_info list \<Rightarrow> http_request" where
  "completion_request self query retrieved =
     \<lparr>req_url = ''https://api.openai.com/v1/chat/completions'',
      req_json = \<lparr>pl_model = openai_model self,
                   pl_messages = [(''system'', system_prompt),
                                  (''user'', user_prompt query retrieved)],
                   pl_temperature = 3 / 10\<rparr>,
      req_headers = [(''Content-Type'', ''application/json''),
                     (''Authorization'', ''Bearer '' @ openai_api_key self)]\<rparr>"

text \<open>
  \<open>_generate_with_context\<close>: raises \<open>ValueError\<close> without a key; otherwise posts one
  request and wraps whatever goes wrong in an \<open>Exception("OpenAI API error: ...")\<close>.
\<close>

definition generate_with_context ::
  "endpoint \<Rightarrow> rag_processor \<Rightarrow> string \<Rightarrow> retrieved_info list \<Rightarrow> world
     \<Rightarrow> (exn + rag_result) \<times> world" where
  "generate_with_context post self query retrieved w =
     (if openai_api_key self = [] then (Inl (ValueError ''OpenAI API key is not set''), w)
      else
        let request = completion_request self query retrieved;
            w' = w\<lparr>http_log := http_log w @ [request]\<rparr>
        in case post request of
             Inl e \<Rightarrow> (Inl (OpenAIError e), w')
           | Inr result \<Rightarrow>
               (case completion_content result of
                  Inl e \<Rightarrow> (Inl (OpenAIError e), w')
                | Inr content \<Rightarrow>
                    (Inr \<lparr>res_query = query, res_retrieved_information = retrieved,
                          res_response = content,
                          res_sources = map info_source retrieved\<rparr>, w')))"

section \<open>The processor: cache, retrieval and generation (rag\_processor.py)\<close>

text \<open>
  \<open>hashlib.md5(...).hexdigest()\<close> is a parameter \<open>md5\<close> of the model, a function from
  the formatted string to its digest.
\<close>

text \<open>\<open>context or ""\<close>\<close>

definition or_empty :: "string option \<Rightarrow> string" where
  "or_empty context = (case context of None \<Rightarrow> [] | Some c \<Rightarrow> c)"

definition get_cache_key :: "(string \<Rightarrow> string) \<Rightarrow> string \<Rightarrow> string option \<Rightarrow> string" where
  "get_cache_key md5 query context =
     (let context_str = or_empty context
      in md5 (query @ ''_'' @ context_str))"

definition retrieve_from_vector_db ::
  "knowledge_index \<Rightarrow> string \<Rightarrow> string option \<Rightarrow> retrieved_info list" where
  "retrieve_from_vector_db index query context =
     retrieve_from_simple_index index query context"

definition retrieve_relevant_information ::
  "rag_processor \<Rightarrow> string \<Rightarrow> string option \<Rightarrow> retrieved_info list" where
  "retrieve_relevant_information self query context =
     (if use_vector_db self
      then retrieve_from_vector_db (knowledge_index self) query context
      else retrieve_from_simple_index (knowledge_index self) query context)"

definition not_configured_marker :: string where
  "not_configured_marker = ''OpenAI API key not configured. Using just retrieved information.''"

definition could_not_generate_marker :: string where
  "could_not_generate_marker = ''Could not generate enhanced response.''"

definition fallback_result :: "string \<Rightarrow> retrieved_info list \<Rightarrow> string \<Rightarrow> rag_result" where
  "fallback_result query retrieved marker =
     \<lparr>res_query = query, res_retrieved_information = retrieved,
      res_response = JStr marker, res_sources = map info_source retrieved\<rparr>"

definition retrieve_and_generate ::
  "(string \<Rightarrow> string) \<Rightarrow> endpoint \<Rightarrow> string \<Rightarrow> string option
     \<Rightarrow> rag_processor \<times> world \<Rightarrow> rag_result \<times> rag_processor \<times> world" where
  "retrieve_and_generate md5 post query context st =
     (let self = fst st; w = snd st;
          cache_key = get_cache_key md5 query context
      in case retrieval_cache self cache_key of
           Some cached \<Rightarrow> (cached, self, w)
         | None \<Rightarrow>
             let retrieved = retrieve_relevant_information self query context;
                 (enhanced_result, w') =
                   (if openai_api_key self \<noteq> []
                    then (case generate_with_context post self query retrieved w of
                            (Inr generated, w') \<Rightarrow> (generated, w')
                          | (Inl e, w') \<Rightarrow>
                              (fallback_result query retrieved could_not_generate_marker, w'))
                    else (fallback_result query retrieved not_configured_marker, w))
             in (enhanced_result,
                 self\<lparr>retrieval_cache := (retrieval_cache self)(cache_key \<mapsto> enhanced_result)\<rparr>,
                 w'))"

section \<open>The knowledge store of the processor (rag\_processor.py)\<close>

definition save_knowledge_index :: "knowledge_index \<Rightarrow> world \<Rightarrow> world" where
  "save_knowledge_index index w =
     (if disk_writable w then w\<lparr>index_file := Stored index\<rparr> else w)"

text \<open>The three readings of \<open>time.time()\<close> are arguments.\<close>

definition create_default_index :: "real \<times> real \<times> real \<Rightarrow> knowledge_index" where
  "create_default_index ts =
     (case ts of (t1, t2, t3) \<Rightarrow>
      [(''logical_fallacies'',
        \<lparr>ki_text = Some ''Logical fallacies are errors in reasoning that undermine the logic of an argument. Common fallacies include ad hominem (attacking the person), straw man (misrepresenting an opponent's argument), false dichotomy (presenting only two options when others exist), and appeal to authority (using an authority figure to support an argument without evidence).'',
         ki_source = Some ''Logical Reasoning Guide'', ki_created_at = Some t1\<rparr>),
       (''argument_structure'',
        \<lparr>ki_text = Some ''A strong argument typically consists of a clear claim or thesis statement, supporting evidence (facts, statistics, examples), and a conclusion that follows logically from the evidence. The claim should be specific and debatable, the evidence should be relevant and credible, and the conclusion should summarize the argument and restate the main points.'',
         ki_source = Some ''Debate Handbook'', ki_created_at = Some t2\<rparr>),
       (''speech_fillers'',
        \<lparr>ki_text = Some ''Filler words like 'um', 'uh', 'like', and 'you know' can detract from the clarity and impact of speech. Speakers who use excessive fillers may be perceived as less confident or knowledgeable. Techniques to reduce fillers include pausing instead of using fillers, recording and analyzing your speech, and practicing speaking more slowly and deliberately.'',
         ki_source = Some ''Public Speaking Guide'', ki_created_at = Some t3\<rparr>)])"

definition load_knowledge_index :: "real \<times> real \<times> real \<Rightarrow> world \<Rightarrow> knowledge_index \<times> world" where
  "load_knowledge_index ts w =
     (case index_file w of
        Stored index \<Rightarrow> (index, w)
      | other \<Rightarrow>
          let default_index = create_default_index ts
          in (default_index, save_knowledge_index default_index w))"

text \<open>The constructor; \<open>api_key\<close> is the value of the environment variable.\<close>

definition init :: "bool \<Rightarrow> string \<Rightarrow> real \<times> real \<times> real \<Rightarrow> world \<Rightarrow> rag_processor \<times> world" where
  "init vector_db api_key ts w =
     (let (index, w') = load_knowledge_index ts w
      in (\<lparr>use_vector_db = vector_db, openai_api_key = api_key,
           openai_model = ''gpt-3.5-turbo'', knowledge_dir = ''data/knowledge_base'',
           retrieval_cache = Map.empty, knowledge_index = index\<rparr>, w'))"

text \<open>
  \<open>add_to_knowledge_base\<close>: \<open>str_float\<close> formats the clock reading inside the hashed
  string; \<open>t_id\<close> and \<open>t_created\<close> are the two clock readings.
\<close>

definition add_to_knowledge_base ::
  "(string \<Rightarrow> string) \<Rightarrow> (real \<Rightarrow> string) \<Rightarrow> real \<Rightarrow> real \<Rightarrow> string \<Rightarrow> string \<Rightarrow> string option
     \<Rightarrow> rag_processor \<times> world \<Rightarrow> string \<times> rag_processor \<times> world" where
  "add_to_knowledge_base md5 str_float t_id t_created txt source item_id st =
     (let self = fst st; w = snd st;
          generated = take 12 (md5 (txt @ ''_'' @ source @ ''_'' @ str_float t_id));
          item_id = (case item_id of
                       None \<Rightarrow> generated
                     | Some i \<Rightarrow> if i = [] then generated else i);
          index = dict_set item_id
                    \<lparr>ki_text = Some txt, ki_source = Some source, ki_created_at = Some t_created\<rparr>
                    (knowledge_index self)
      in (item_id, self\<lparr>knowledge_index := index\<rparr>, save_knowledge_index index w))"

text \<open>A history of calls on one processor, run in order.\<close>

datatype call =
    Query endpoint string "string option"
  | Add real real string string "string option"

fun run_call :: "(string \<Rightarrow> string) \<Rightarrow> (real \<Rightarrow> string) \<Rightarrow> call
    \<Rightarrow> rag_processor \<times> world \<Rightarrow> rag_processor \<times> world" where
  "run_call md5 str_float (Query post query context) st =
     snd (retrieve_and_generate md5 post query context st)"
| "run_call md5 str_float (Add t_id t_created txt source item_id) st =
     snd (add_to_knowledge_base md5 str_float t_id t_created txt source item_id st)"

fun run_calls :: "(string \<Rightarrow> string) \<Rightarrow> (real \<Rightarrow> string) \<Rightarrow> call list
    \<Rightarrow> rag_processor \<times> world \<Rightarrow> rag_processor \<times> world" where
  "run_calls md5 str_float [] st = st"
| "run_calls md5 str_float (c # cs) st = run_calls md5 str_float cs (run_call md5 str_float c st)"

section \<open>The embedding pipeline (rag\_pipeline.py)\<close>

record pipeline_item =
  it_title :: string
  it_topic :: "string option"
  it_content :: string
  it_source :: string
  it_embedding :: "real list option"


text \<open>
  A file of the knowledge directory after \<open>json.load\<close>: unreadable, a list of items, or
  a single item. The directory is the list \<open>os.listdir\<close> returns, with each file's
  content; \<open>can_write\<close> tells which file names can be opened for writing.
\<close>

datatype knowledge_file = BadFile | ItemList "pipeline_item list" | SingleItem pipeline_item

record knowledge_dir_state =
  dir_files :: "(string \<times> knowledge_file) list"
  can_write :: "string \<Rightarrow> bool"

text \<open>
  The embedding model is a parameter \<open>encode\<close>, which may raise.
  \<open>cosine_similarity\<close> follows scikit-learn on two single rows: it rejects rows of
  different or zero width, divides each row by its Euclidean norm (a zero norm is
  replaced by 1) and returns the dot product.
\<close>

type_synonym encoder = "string \<Rightarrow> exn + real list"





definition endswith :: "string \<Rightarrow> string \<Rightarrow> bool" where
  "endswith s suffix = startswith (rev s) (rev suffix)"

fun load_files :: "(string \<times> knowledge_file) list \<Rightarrow> pipeline_item list" where
  "load_files [] = []"
| "load_files ((filename, file) # rest) =
     (if endswith filename ''.json''
      then (case file of
              BadFile \<Rightarrow> load_files rest
            | ItemList items \<Rightarrow> items @ load_files rest
            | SingleItem item \<Rightarrow> item # load_files rest)
      else load_files rest)"


definition save_knowledge_item ::
  "pipeline_item list \<Rightarrow> string \<Rightarrow> knowledge_dir_state \<Rightarrow> knowledge_dir_state" where
  "save_knowledge_item items filename d =
     (if can_write d filename
      then d\<lparr>dir_files := dict_set filename (ItemList items) (dir_files d)\<rparr>
      else d)"



text \<open>Decimal digits of a natural number, for \<open>len(self.knowledge_base)\<close> in a file name.\<close>

fun str_nat :: "nat \<Rightarrow> string" where
  "str_nat n = (if n < 10 then [char_of (48 + n)] else str_nat (n div 10) @ [char_of (48 + n mod 10)])"

definition replace_spaces :: "string \<Rightarrow> string" where
  "replace_spaces s = map (\<lambda>c. if c = CHR '' '' then CHR ''_'' else c) s"

definition add_knowledge ::
  "encoder \<Rightarrow> string \<Rightarrow> string \<Rightarrow> string \<Rightarrow> string
     \<Rightarrow> pipeline_item list \<times> knowledge_dir_state
     \<Rightarrow> bool \<times> pipeline_item list \<times> knowledge_dir_state" where
  "add_knowledge encode title content topic source st =
     (let knowledge_base = fst st; d = snd st
      in case encode (title @ ''. '' @ content) of
           Inl err \<Rightarrow> (False, knowledge_base, d)
         | Inr embedding \<Rightarrow>
             let knowledge_item = \<lparr>it_title = title, it_topic = Some topic, it_content = content,
                                   it_source = source, it_embedding = Some embedding\<rparr>;
                 knowledge_base = knowledge_base @ [knowledge_item];
                 filename = replace_spaces topic @ ''_'' @ str_nat (length knowledge_base) @ ''.json''
             in (True, knowledge_base, save_knowledge_item [knowledge_item] filename d))"





section \<open>Predicates used in the statements\<close>





section \<open>Sample states\<close>

text \<open>
  Concrete inputs on which the statements below are evaluated. \<open>plain_digest\<close> stands
  in for the digest and \<open>plain_str_float\<close> for the float formatting, the three
  endpoints answer, refuse, and answer with a body that has no choice, and
  \<open>encoder_unit\<close> embeds every text as the same vector.
\<close>

definition kb1 :: knowledge_index where
  "kb1 = [(''fallacies'', \<lparr>ki_text = Some ''Logical fallacies are ERRORS in reasoning'',
                           ki_source = Some ''Guide'', ki_created_at = Some 0\<rparr>),
          (''fillers'', \<lparr>ki_text = Some ''Filler words detract from clarity'',
                           ki_source = None, ki_created_at = None\<rparr>)]"

definition plain_digest :: "string \<Rightarrow> string" where
  "plain_digest s = s"

definition plain_str_float :: "real \<Rightarrow> string" where
  "plain_str_float t = ''1700000000.0''"

definition endpoint_ok :: endpoint where
  "endpoint_ok request =
     Inr (JObj [(''choices'',
                 JArr [JObj [(''message'', JObj [(''role'', JStr ''assistant''),
                                                 (''content'', JStr ''Generated answer'')])]])])"

definition endpoint_down :: endpoint where
  "endpoint_down request = Inl (RequestError ''connection refused'')"


definition world1 :: world where
  "world1 = \<lparr>http_log = [], index_file = Stored kb1, disk_writable = True\<rparr>"

definition proc_no_key :: "rag_processor \<times> world" where
  "proc_no_key = init False [] (0, 0, 0) world1"

definition proc_with_key :: "rag_processor \<times> world" where
  "proc_with_key = init False ''sk-test'' (0, 0, 0) world1"

definition question1 :: string where
  "question1 = ''What about logical Errors here''"

definition calls1 :: "call list" where
  "calls1 = [Add 1 2 ''Logical errors are everywhere'' ''Notes'' None,
             Query endpoint_ok ''Which filler words matter'' None]"

definition after_calls1 :: "rag_processor \<times> world" where
  "after_calls1 = run_calls plain_digest plain_str_float calls1
          (snd (retrieve_and_generate plain_digest endpoint_down question1 None proc_no_key))"







definition sample_addition :: "string \<times> rag_processor \<times> world" where
  "sample_addition = add_to_knowledge_base plain_digest plain_str_float 1 2
      ''Logical errors are everywhere'' ''Notes'' None proc_no_key"

definition overwriting_addition :: "string \<times> rag_processor \<times> world" where
  "overwriting_addition = add_to_knowledge_base plain_digest plain_str_float 1 2
      ''Logical errors are everywhere'' ''Notes'' (Some ''fallacies'') proc_no_key"

section \<open>Properties of the string primitives\<close>

lemma startswith_iff: "startswith s p \<longleftrightarrow> (\<exists>after. s = p @ after)"
  by (induction s p rule: startswith.induct) auto

lemma str_in_iff: "str_in t s \<longleftrightarrow> occurs_in t s"
proof (induction s)
  case Nil
  show ?case by (auto simp: occurs_in_def)
next
  case (Cons c cs)
  show ?case
  proof
    assume "str_in t (c # cs)"
    then consider "startswith (c # cs) t" | "str_in t cs" by auto
    then show "occurs_in t (c # cs)"
    proof cases
      case 1
      then obtain after where "c # cs = t @ after" by (auto simp: startswith_iff)
      then have "c # cs = [] @ t @ after" by simp
      then show ?thesis unfolding occurs_in_def by blast
    next
      case 2
      with Cons obtain before after where "cs = before @ t @ after"
        by (auto simp: occurs_in_def)
      then have "c # cs = (c # before) @ t @ after" by simp
      then show ?thesis unfolding occurs_in_def by blast
    qed
  next
    assume "occurs_in t (c # cs)"
    then obtain before after where eq: "c # cs = before @ t @ after"
      by (auto simp: occurs_in_def)
    show "str_in t (c # cs)"
    proof (cases before)
      case Nil
      with eq have "startswith (c # cs) t" by (auto simp: startswith_iff)
      then show ?thesis by simp
    next
      case (Cons b bs)
      with eq have "cs = bs @ t @ after" by simp
      then have "occurs_in t cs" unfolding occurs_in_def by blast
      with Cons.IH show ?thesis by simp
    qed
  qed
qed

section \<open>The keyword scorer\<close>

lemma set_long_terms:
  "set (long_terms s) = {lower tok | tok. tok \<in> set (split s) \<and> length tok > 3}"
  by (auto simp: long_terms_def)

lemma distinct_query_terms: "distinct (query_terms query context)"
  by (simp add: query_terms_def Let_def)

lemma split_empty: "split [] = []"
  by (simp add: split_def)

lemma set_query_terms: "set (query_terms query context) = qualifying_terms query context"
  by (cases "context")
     (auto simp: query_terms_def qualifying_terms_def Let_def set_long_terms split_empty)

lemma match_count_card:
  "distinct terms \<Longrightarrow> match_count terms s = card {t \<in> set terms. occurs_in t s}"
  by (simp add: match_count_def str_in_iff distinct_length_filter Collect_conj_eq Int_commute
      flip: length_remdups_card_conv) 

lemma match_count_set:
  "distinct ts \<Longrightarrow> distinct ts' \<Longrightarrow> set ts = set ts' \<Longrightarrow> match_count ts s = match_count ts' s"
  by (simp add: match_count_card)

lemma match_count_found:
  "match_count (query_terms query context) (lower (get_text item_data))
     = card (terms_found query context item_data)"
  by (simp add: match_count_card distinct_query_terms set_query_terms terms_found_def)

lemma length_query_terms:
  "length (query_terms query context) = card (qualifying_terms query context)"
  using distinct_card[OF distinct_query_terms, of query "context"]
  by (simp add: set_query_terms)

lemma finite_qualifying_terms: "finite (qualifying_terms query context)"
  by (metis set_query_terms finite_set)

lemma score_items_origin:
  "r \<in> set (score_items terms kb) \<Longrightarrow>
   \<exists>item_id item_data. (item_id, item_data) \<in> set kb
      \<and> 0 < match_count terms (lower (get_text item_data))
      \<and> r = \<lparr>info_id = item_id, info_text = get_text item_data,
               info_source = get_source item_data,
               relevance_score = real (match_count terms (lower (get_text item_data)))
                                 / real (max 1 (length terms))\<rparr>"
proof (induction kb)
  case Nil
  then show ?case by simp
next
  case (Cons p kb)
  obtain item_id item_data where p: "p = (item_id, item_data)" by (cases p)
  show ?case
  proof (cases "r \<in> set (score_items terms kb)")
    case True
    with Cons.IH show ?thesis by (simp; blast)
  next
    case False
    with Cons.prems p show ?thesis
      by (auto simp: Let_def split: if_splits)
  qed
qed

lemma set_sort_by_relevance: "set (sort_by_relevance rs) = set rs"
  by (simp add: sort_by_relevance_def)

lemma retrieve_subset:
  "set (retrieve_from_simple_index kb query context)
     \<subseteq> set (score_items (query_terms query context) kb)"
  unfolding retrieve_from_simple_index_def
  using set_take_subset[of 3 "sort_by_relevance (score_items (query_terms query context) kb)"]
  by (simp add: set_sort_by_relevance)

lemma score_items_no_terms: "score_items [] kb = []"
  by (induction kb) (auto simp: match_count_def)

text \<open>
  C1. Every entry returned by keyword retrieval comes from an item of the index and carries
  the score N / max(1, M): M is the number of qualifying terms (the distinct lowercased
  tokens of the query, and of the context when given, longer than 3 characters and not
  stop words), N the number of them that occur in the item's lowercased text. Every
  returned entry has N > 0, and with M = 0 nothing is returned.
\<close>

theorem keyword_score:
  "(\<forall>r \<in> set (retrieve_from_simple_index kb query context).
      \<exists>item_id item_data. (item_id, item_data) \<in> set kb
        \<and> info_id r = item_id \<and> info_text r = get_text item_data
        \<and> info_source r = get_source item_data
        \<and> 0 < card (terms_found query context item_data)
        \<and> relevance_score r = real (card (terms_found query context item_data))
                               / real (max 1 (card (qualifying_terms query context))))
   \<and> (card (qualifying_terms query context) = 0 \<longrightarrow>
        retrieve_from_simple_index kb query context = [])"
proof (intro conjI ballI impI)
  fix r assume "r \<in> set (retrieve_from_simple_index kb query context)"
  then have "r \<in> set (score_items (query_terms query context) kb)"
    using retrieve_subset by blast
  from score_items_origin[OF this] obtain item_id item_data where
    mem: "(item_id, item_data) \<in> set kb" and
    pos: "0 < match_count (query_terms query context) (lower (get_text item_data))" and
    r: "r = \<lparr>info_id = item_id, info_text = get_text item_data,
             info_source = get_source item_data,
             relevance_score =
               real (match_count (query_terms query context) (lower (get_text item_data)))
               / real (max 1 (length (query_terms query context)))\<rparr>"
    by blast
  show "\<exists>item_id item_data. (item_id, item_data) \<in> set kb
        \<and> info_id r = item_id \<and> info_text r = get_text item_data
        \<and> info_source r = get_source item_data
        \<and> 0 < card (terms_found query context item_data)
        \<and> relevance_score r = real (card (terms_found query context item_data))
                               / real (max 1 (card (qualifying_terms query context)))"
    using mem pos r by (auto simp: match_count_found length_query_terms)
next
  assume "card (qualifying_terms query context) = 0"
  then have "query_terms query context = []"
    by (simp flip: length_query_terms)
  then show "retrieve_from_simple_index kb query context = []"
    by (simp add: retrieve_from_simple_index_def score_items_no_terms sort_by_relevance_def)
qed

lemma retrieve_kb1: "retrieve_from_simple_index kb1 ''What about logical Errors here'' None
    = [\<lparr>info_id = ''fallacies'', info_text = ''Logical fallacies are ERRORS in reasoning'',
        info_source = ''Guide'', relevance_score = 1 / 2\<rparr>]"
  by code_simp

lemma retrieve_kb1_stop_words: "retrieve_from_simple_index kb1 ''with that this'' (Some ''from'') = []"
  by code_simp


theorem keyword_score_witness:
  "(\<exists>r \<in> set (retrieve_from_simple_index kb1 ''What about logical Errors here'' None).
      \<exists>item_data. (''fallacies'', item_data) \<in> set kb1
        \<and> real (card (terms_found ''What about logical Errors here'' None item_data))
            / real (max 1 (card (qualifying_terms ''What about logical Errors here'' None)))
          = 1 / 2)
   \<and> card (qualifying_terms ''with that this'' (Some ''from'')) = 0
   \<and> retrieve_from_simple_index kb1 ''with that this'' (Some ''from'') = []"
proof -
  let ?q = "''What about logical Errors here''"
  let ?r = "\<lparr>info_id = ''fallacies'', info_text = ''Logical fallacies are ERRORS in reasoning'',
        info_source = ''Guide'', relevance_score = 1 / 2\<rparr>"
  have mem: "?r \<in> set (retrieve_from_simple_index kb1 ?q None)"
    by (simp add: retrieve_kb1)
  from keyword_score[of kb1 ?q None] mem
  obtain item_id item_data where
    "(item_id, item_data) \<in> set kb1" "info_id ?r = item_id"
    "relevance_score ?r = real (card (terms_found ?q None item_data))
                               / real (max 1 (card (qualifying_terms ?q None)))"
    by blast
  then have a: "\<exists>r \<in> set (retrieve_from_simple_index kb1 ?q None).
      \<exists>item_data. (''fallacies'', item_data) \<in> set kb1
        \<and> real (card (terms_found ?q None item_data))
            / real (max 1 (card (qualifying_terms ?q None))) = 1 / 2"
    using mem by (intro bexI[of _ ?r] exI[of _ item_data]) auto
  have "query_terms ''with that this'' (Some ''from'') = []" by code_simp
  then have b: "card (qualifying_terms ''with that this'' (Some ''from'')) = 0"
    by (simp flip: length_query_terms)
  from keyword_score[of kb1 "''with that this''" "Some ''from''"] b
  have c: "retrieve_from_simple_index kb1 ''with that this'' (Some ''from'') = []"
    by blast
  from a b c show ?thesis by blast
qed

section \<open>Cache, fallback and the single attempt\<close>

lemma retrieve_and_generate_hit:
  "retrieval_cache self (get_cache_key md5 query context) = Some cached \<Longrightarrow>
   retrieve_and_generate md5 post query context (self, w) = (cached, self, w)"
  by (simp add: retrieve_and_generate_def)

lemma retrieve_and_generate_no_key:
  "retrieval_cache self (get_cache_key md5 query context) = None \<Longrightarrow>
   openai_api_key self = [] \<Longrightarrow>
   retrieve_and_generate md5 post query context (self, w) =
     (let r = fallback_result query (retrieve_relevant_information self query context)
                not_configured_marker
      in (r, self\<lparr>retrieval_cache := (retrieval_cache self)(get_cache_key md5 query context \<mapsto> r)\<rparr>, w))"
  by (simp add: retrieve_and_generate_def Let_def)

lemma retrieve_and_generate_key:
  "retrieval_cache self (get_cache_key md5 query context) = None \<Longrightarrow>
   openai_api_key self \<noteq> [] \<Longrightarrow>
   retrieve_and_generate md5 post query context (self, w) =
     (let retrieved = retrieve_relevant_information self query context;
          request = completion_request self query retrieved;
          r = (case post request of
                 Inl e \<Rightarrow> fallback_result query retrieved could_not_generate_marker
               | Inr body \<Rightarrow>
                   (case completion_content body of
                      Inl e \<Rightarrow> fallback_result query retrieved could_not_generate_marker
                    | Inr content \<Rightarrow>
                        \<lparr>res_query = query, res_retrieved_information = retrieved,
                         res_response = content, res_sources = map info_source retrieved\<rparr>))
      in (r, self\<lparr>retrieval_cache := (retrieval_cache self)(get_cache_key md5 query context \<mapsto> r)\<rparr>,
          w\<lparr>http_log := http_log w @ [request]\<rparr>))"
  by (simp add: retrieve_and_generate_def generate_with_context_def Let_def
           split: sum.splits)

lemma cached_after_call:
  "retrieve_and_generate md5 post query context st = (r, st') \<Longrightarrow>
   retrieval_cache (fst st') (get_cache_key md5 query context) = Some r"
  by (cases st; cases "retrieval_cache (fst st) (get_cache_key md5 query context)";
      cases "openai_api_key (fst st) = []")
     (auto simp: retrieve_and_generate_hit retrieve_and_generate_no_key
        retrieve_and_generate_key Let_def)

lemma query_keeps_entries:
  "retrieval_cache (fst st) k = Some r \<Longrightarrow>
   retrieval_cache (fst (snd (retrieve_and_generate md5 post query context st))) k = Some r"
  by (cases st; cases "retrieval_cache (fst st) (get_cache_key md5 query context)";
      cases "openai_api_key (fst st) = []")
     (auto simp: retrieve_and_generate_hit retrieve_and_generate_no_key
        retrieve_and_generate_key Let_def)

lemma add_keeps_cache:
  "retrieval_cache (fst (snd (add_to_knowledge_base md5 str_float t_id t_created txt source item_id st)))
     = retrieval_cache (fst st)"
  by (simp add: add_to_knowledge_base_def Let_def)

lemma run_call_keeps_entries:
  "retrieval_cache (fst st) k = Some r \<Longrightarrow>
   retrieval_cache (fst (run_call md5 str_float c st)) k = Some r"
  by (cases c) (simp_all add: query_keeps_entries add_keeps_cache)

lemma run_calls_keeps_entries:
  "retrieval_cache (fst st) k = Some r \<Longrightarrow>
   retrieval_cache (fst (run_calls md5 str_float cs st)) k = Some r"
  by (induction cs arbitrary: st) (simp_all add: run_call_keeps_entries)

lemma query_keeps_index:
  "knowledge_index (fst (snd (retrieve_and_generate md5 post query context st)))
     = knowledge_index (fst st)"
  by (cases st; cases "retrieval_cache (fst st) (get_cache_key md5 query context)";
      cases "openai_api_key (fst st) = []")
     (auto simp: retrieve_and_generate_hit retrieve_and_generate_no_key
        retrieve_and_generate_key Let_def)

lemma query_keeps_index_file:
  "index_file (snd (snd (retrieve_and_generate md5 post query context st)))
     = index_file (snd st)"
  by (cases st; cases "retrieval_cache (fst st) (get_cache_key md5 query context)";
      cases "openai_api_key (fst st) = []")
     (auto simp: retrieve_and_generate_hit retrieve_and_generate_no_key
        retrieve_and_generate_key Let_def)

text \<open>
  C10. \<open>retrieve_and_generate\<close> leaves the knowledge index unchanged, in memory and on
  disk, and \<open>add_to_knowledge_base\<close> leaves the retrieval cache unchanged.
\<close>

theorem frame_conditions:
  "knowledge_index (fst (snd (retrieve_and_generate md5 post query context st)))
     = knowledge_index (fst st)
   \<and> index_file (snd (snd (retrieve_and_generate md5 post query context st)))
     = index_file (snd st)
   \<and> retrieval_cache
       (fst (snd (add_to_knowledge_base md5 str_float t_id t_created txt source item_id st)))
     = retrieval_cache (fst st)"
  by (simp add: query_keeps_index query_keeps_index_file add_keeps_cache)

text \<open>
  C2. After a first call with a query and context, whatever calls come in between
  (additions to the knowledge base, other queries), a second call with the same arguments
  returns the first call's result and leaves the processor and the world as they are: no
  request is posted, and the answer is the same for any knowledge index, since it is read
  from the cache alone.
\<close>

theorem second_call_is_cached:
  "retrieve_and_generate md5 post1 query context st = (r1, st1) \<Longrightarrow>
   st2 = run_calls md5 str_float calls st1 \<Longrightarrow>
   retrieve_and_generate md5 post2 query context st2 = (r1, st2)
   \<and> (\<forall>self' w'. retrieval_cache self' = retrieval_cache (fst st2) \<longrightarrow>
         retrieve_and_generate md5 post2 query context (self', w') = (r1, self', w'))"
proof -
  assume first: "retrieve_and_generate md5 post1 query context st = (r1, st1)"
    and between: "st2 = run_calls md5 str_float calls st1"
  have "retrieval_cache (fst st1) (get_cache_key md5 query context) = Some r1"
    using first by (rule cached_after_call)
  then have hit: "retrieval_cache (fst st2) (get_cache_key md5 query context) = Some r1"
    unfolding between by (rule run_calls_keeps_entries)
  have "retrieve_and_generate md5 post2 query context (fst st2, snd st2) = (r1, fst st2, snd st2)"
    using hit by (rule retrieve_and_generate_hit)
  moreover have "\<forall>self' w'. retrieval_cache self' = retrieval_cache (fst st2) \<longrightarrow>
         retrieve_and_generate md5 post2 query context (self', w') = (r1, self', w')"
    using hit by (simp add: retrieve_and_generate_hit)
  ultimately show ?thesis by simp
qed










text \<open>
  C7. One call of \<open>retrieve_and_generate\<close> posts exactly one request when a key is
  configured and the cache misses, and none otherwise; when that post fails, the call ends
  in the fallback result without another attempt.
\<close>

theorem one_attempt:
  assumes call: "retrieve_and_generate md5 post query context (self, w) = (r, self', w')"
  shows "http_log w' = http_log w @
           (if openai_api_key self \<noteq> [] \<and> retrieval_cache self (get_cache_key md5 query context) = None
            then [completion_request self query (retrieve_relevant_information self query context)]
            else [])
    \<and> (openai_api_key self \<noteq> [] \<and> retrieval_cache self (get_cache_key md5 query context) = None
        \<and> (\<exists>e. post (completion_request self query
                        (retrieve_relevant_information self query context)) = Inl e)
       \<longrightarrow> r = fallback_result query (retrieve_relevant_information self query context)
                  could_not_generate_marker)"
proof (cases "retrieval_cache self (get_cache_key md5 query context)")
  case (Some cached)
  from retrieve_and_generate_hit[OF Some, of post w] call show ?thesis by (simp add: Some)
next
  case None
  show ?thesis
  proof (cases "openai_api_key self = []")
    case True
    from retrieve_and_generate_no_key[OF None True, of post w] call
    show ?thesis by (auto simp: Let_def True)
  next
    case False
    from retrieve_and_generate_key[OF None False, of post w] call
    show ?thesis by (auto simp: Let_def False None)
  qed
qed

lemma first_answer_no_key:
  "fst (retrieve_and_generate plain_digest endpoint_down question1 None proc_no_key)
   = \<lparr>res_query = question1,
      res_retrieved_information =
        [\<lparr>info_id = ''fallacies'', info_text = ''Logical fallacies are ERRORS in reasoning'',
          info_source = ''Guide'', relevance_score = 1 / 2\<rparr>],
      res_response = JStr not_configured_marker, res_sources = [''Guide'']\<rparr>"
  by code_simp

lemma fresh_retrieval_after_calls1:
  "map info_id (retrieve_from_simple_index (knowledge_index (fst after_calls1)) question1 None)
     = [''Logical erro'', ''fallacies'']"
  by code_simp

theorem second_call_is_cached_witness:
  "retrieve_and_generate plain_digest endpoint_ok question1 None after_calls1
     = (fst (retrieve_and_generate plain_digest endpoint_down question1 None proc_no_key),
        after_calls1)
   \<and> map info_id (res_retrieved_information
         (fst (retrieve_and_generate plain_digest endpoint_ok question1 None after_calls1)))
       = [''fallacies'']
   \<and> map info_id (retrieve_from_simple_index (knowledge_index (fst after_calls1)) question1 None)
       = [''Logical erro'', ''fallacies'']"
proof -
  have "retrieve_and_generate plain_digest endpoint_ok question1 None after_calls1
     = (fst (retrieve_and_generate plain_digest endpoint_down question1 None proc_no_key),
        after_calls1)"
    using second_call_is_cached[OF surjective_pairing after_calls1_def, of endpoint_ok]
    by simp
  then show ?thesis
    by (simp add: first_answer_no_key fresh_retrieval_after_calls1)
qed

lemma failed_attempt_log:
  "http_log (snd (snd (retrieve_and_generate plain_digest endpoint_down question1 None proc_with_key)))
   = [completion_request (fst proc_with_key) question1
        (retrieve_relevant_information (fst proc_with_key) question1 None)]"
  by code_simp

lemma proc_with_key_facts:
  "openai_api_key (fst proc_with_key) = ''sk-test''"
  "retrieval_cache (fst proc_with_key) (get_cache_key plain_digest question1 None) = None"
  "http_log (snd proc_with_key) = []"
  by code_simp+

theorem one_attempt_witness:
  "length (http_log (snd (snd
      (retrieve_and_generate plain_digest endpoint_down question1 None proc_with_key)))) = 1
   \<and> fst (retrieve_and_generate plain_digest endpoint_down question1 None proc_with_key)
       = fallback_result question1
           (retrieve_relevant_information (fst proc_with_key) question1 None)
           could_not_generate_marker"
proof -
  obtain r self' w' where
    call: "retrieve_and_generate plain_digest endpoint_down question1 None
             (fst proc_with_key, snd proc_with_key) = (r, self', w')"
    by (metis surj_pair)
  have down: "\<exists>e. endpoint_down (completion_request (fst proc_with_key) question1
                 (retrieve_relevant_information (fst proc_with_key) question1 None)) = Inl e"
    by (simp add: endpoint_down_def)
  from one_attempt[OF call] down
  have "http_log w' = [completion_request (fst proc_with_key) question1
                        (retrieve_relevant_information (fst proc_with_key) question1 None)]"
    and "r = fallback_result question1
           (retrieve_relevant_information (fst proc_with_key) question1 None)
           could_not_generate_marker"
    by (simp_all add: proc_with_key_facts)
  with call show ?thesis by simp
qed


section \<open>Queries without a match, and cache keys\<close>











lemma underscore_split:
  assumes "CHR ''_'' \<notin> set q" "CHR ''_'' \<notin> set q'" "q @ ''_'' @ s = q' @ ''_'' @ s'"
  shows "q = q' \<and> s = s'"
proof -
  have tw: "takeWhile (\<lambda>c. c \<noteq> CHR ''_'') (p @ ''_'' @ t) = p"
    if "CHR ''_'' \<notin> set p" for p t
    using that by (induction p) auto
  have "takeWhile (\<lambda>c. c \<noteq> CHR ''_'') (q @ ''_'' @ s) = q"
    using assms(1) by (rule tw)
  moreover have "takeWhile (\<lambda>c. c \<noteq> CHR ''_'') (q' @ ''_'' @ s') = q'"
    using assms(2) by (rule tw)
  ultimately have "q = q'" using assms(3) by simp
  with assms(3) show ?thesis by simp
qed

text \<open>
  C5, as the code has it. The key is the digest of \<open>query + "_" + (context or "")\<close>:
  two pairs with the same concatenation share their key under every digest function, and
  under an injective digest two pairs whose queries contain no underscore have equal keys
  only when their queries and context strings are equal.
\<close>

theorem cache_key_of_concatenation:
  "(query @ ''_'' @ or_empty context = query' @ ''_'' @ or_empty context' \<longrightarrow>
      get_cache_key md5 query context = get_cache_key md5 query' context')
   \<and> (inj md5 \<and> CHR ''_'' \<notin> set query \<and> CHR ''_'' \<notin> set query'
        \<and> get_cache_key md5 query context = get_cache_key md5 query' context' \<longrightarrow>
      query = query' \<and> or_empty context = or_empty context')"
proof -
  have same: "get_cache_key md5 query context = get_cache_key md5 query' context'"
    if "query @ ''_'' @ or_empty context = query' @ ''_'' @ or_empty context'"
    using that by (simp add: get_cache_key_def)
  have apart: "query = query' \<and> or_empty context = or_empty context'"
    if "inj md5" and "CHR ''_'' \<notin> set query" and "CHR ''_'' \<notin> set query'"
      and "get_cache_key md5 query context = get_cache_key md5 query' context'"
  proof -
    from that(1,4) have "query @ ''_'' @ or_empty context = query' @ ''_'' @ or_empty context'"
      by (auto simp: get_cache_key_def dest: injD)
    with that(2,3) show ?thesis by (rule underscore_split)
  qed
  from same apart show ?thesis by blast
qed

text \<open>
  C5 as stated fails: the pairs \<open>("a_b", "c")\<close> and \<open>("a", "b_c")\<close> differ and are
  formatted to the same string, so they share their key whatever the digest is.
\<close>

theorem cache_key_collision_counterexample:
  "(''a_b'', or_empty (Some ''c'')) \<noteq> (''a'', or_empty (Some ''b_c''))
   \<and> get_cache_key plain_digest ''a_b'' (Some ''c'')
       = get_cache_key plain_digest ''a'' (Some ''b_c'')"
  by (simp add: get_cache_key_def or_empty_def)

lemma inj_plain_digest: "inj plain_digest"
  by (simp add: inj_def plain_digest_def)

theorem cache_key_of_concatenation_witness:
  "get_cache_key plain_digest ''a_b'' (Some ''c'') = get_cache_key plain_digest ''a'' (Some ''b_c'')
   \<and> get_cache_key plain_digest ''abc'' None = get_cache_key plain_digest ''abc'' (Some [])
   \<and> or_empty None = or_empty (Some [])"
proof -
  have a: "get_cache_key plain_digest ''a_b'' (Some ''c'')
            = get_cache_key plain_digest ''a'' (Some ''b_c'')"
    using cache_key_of_concatenation[of "''a_b''" "Some ''c''" "''a''" "Some ''b_c''" plain_digest]
    by (simp add: or_empty_def)
  have b: "get_cache_key plain_digest ''abc'' None = get_cache_key plain_digest ''abc'' (Some [])"
    by (simp add: get_cache_key_def or_empty_def)
  have "or_empty None = or_empty (Some [])"
    using cache_key_of_concatenation[of "''abc''" None "''abc''" "Some []" plain_digest]
      inj_plain_digest b
    by simp
  with a b show ?thesis by simp
qed

section \<open>Ranking: size, order and range of the scores\<close>





















section \<open>Loading and extending the knowledge base\<close>

lemma map_of_dict_set: "map_of (dict_set k v d) k = Some v"
  by (induction d) auto

lemma dict_set_fresh: "k \<notin> fst ` set d \<Longrightarrow> dict_set k v d = d @ [(k, v)]"
  by (induction d) auto

lemma length_dict_set_present: "k \<in> fst ` set d \<Longrightarrow> length (dict_set k v d) = length d"
  by (induction d) fastforce+

lemma dict_set_member: "(k, v) \<in> set (dict_set k v d)"
  by (induction d) auto

lemma score_items_complete:
  "(item_id, item_data) \<in> set kb \<Longrightarrow>
   0 < match_count terms (lower (get_text item_data)) \<Longrightarrow>
   \<lparr>info_id = item_id, info_text = get_text item_data, info_source = get_source item_data,
    relevance_score = real (match_count terms (lower (get_text item_data)))
                      / real (max 1 (length terms))\<rparr> \<in> set (score_items terms kb)"
  by (induction kb) (auto simp: Let_def)

lemma top3_or_outranked:
  assumes "e \<in> set xs"
  shows "e \<in> set (take 3 (sort_key f xs))
     \<or> (length (take 3 (sort_key f xs)) = 3 \<and> (\<forall>r \<in> set (take 3 (sort_key f xs)). f r \<le> f e))"
proof (cases "e \<in> set (take 3 (sort_key f xs))")
  case True
  then show ?thesis by simp
next
  case False
  let ?L = "sort_key f xs"
  have "e \<in> set ?L" using assms by simp
  moreover have "set ?L = set (take 3 ?L) \<union> set (drop 3 ?L)"
    by (metis append_take_drop_id set_append)
  ultimately have in_drop: "e \<in> set (drop 3 ?L)" using False by blast
  then have "drop 3 ?L \<noteq> []" by auto
  then have len: "length (take 3 ?L) = 3" by simp
  have "sorted (map f (take 3 ?L @ drop 3 ?L))" by simp
  then have "\<forall>r \<in> set (take 3 ?L). f r \<le> f e"
    using in_drop unfolding map_append sorted_append by auto
  with len show ?thesis by simp
qed

lemma save_then_load:
  "disk_writable w \<Longrightarrow>
   index_file (save_knowledge_index index w) = Stored index
   \<and> fst (load_knowledge_index ts (save_knowledge_index index w)) = index"
  by (simp add: save_knowledge_index_def load_knowledge_index_def)

lemma terms_found_text:
  "terms_found query context \<lparr>ki_text = Some txt, ki_source = s, ki_created_at = t\<rparr>
     = {tm \<in> qualifying_terms query context. occurs_in tm (lower txt)}"
  by (simp add: terms_found_def get_text_def)

lemma added_item_retrieved:
  assumes mem: "(new_id, \<lparr>ki_text = Some txt, ki_source = Some source, ki_created_at = Some t\<rparr>)
                  \<in> set index"
    and tm: "tm \<in> qualifying_terms query context" "occurs_in tm (lower txt)"
  shows "(\<exists>r \<in> set (retrieve_from_simple_index index query context).
            info_id r = new_id \<and> info_text r = txt \<and> info_source r = source)
     \<or> (length (retrieve_from_simple_index index query context) = 3
        \<and> (\<forall>r \<in> set (retrieve_from_simple_index index query context).
              real (card {tm \<in> qualifying_terms query context. occurs_in tm (lower txt)})
                / real (card (qualifying_terms query context)) \<le> relevance_score r))"
proof -
  let ?item = "\<lparr>ki_text = Some txt, ki_source = Some source, ki_created_at = Some t\<rparr>"
  let ?terms = "query_terms query context"
  let ?n = "match_count ?terms (lower (get_text ?item))"
  let ?e = "\<lparr>info_id = new_id, info_text = get_text ?item, info_source = get_source ?item,
             relevance_score = real ?n / real (max 1 (length ?terms))\<rparr>"
  have n: "?n = card {tm \<in> qualifying_terms query context. occurs_in tm (lower txt)}"
    by (simp add: match_count_found terms_found_text)
  have "tm \<in> {tm \<in> qualifying_terms query context. occurs_in tm (lower txt)}"
    using tm by simp
  moreover have "finite {tm \<in> qualifying_terms query context. occurs_in tm (lower txt)}"
    by (simp add: finite_qualifying_terms)
  ultimately have "0 < card {tm \<in> qualifying_terms query context. occurs_in tm (lower txt)}"
    using card_gt_0_iff by blast
  then have pos: "0 < ?n" by (simp add: n)
  have "tm \<in> set ?terms" using tm(1) by (simp add: set_query_terms)
  then have "0 < length ?terms" by (cases ?terms) auto
  then have m: "max 1 (length ?terms) = card (qualifying_terms query context)"
    by (simp add: length_query_terms)
  have "?e \<in> set (score_items ?terms index)"
    using mem pos by (rule score_items_complete)
  then have top: "?e \<in> set (retrieve_from_simple_index index query context)
     \<or> (length (retrieve_from_simple_index index query context) = 3
        \<and> (\<forall>r \<in> set (retrieve_from_simple_index index query context).
              - relevance_score r \<le> - relevance_score ?e))"
    unfolding retrieve_from_simple_index_def sort_by_relevance_def
    by (rule top3_or_outranked)
  have ids: "info_id ?e = new_id \<and> info_text ?e = txt \<and> info_source ?e = source"
    by (simp add: get_text_def get_source_def)
  have score: "relevance_score ?e
      = real (card {tm \<in> qualifying_terms query context. occurs_in tm (lower txt)})
          / real (card (qualifying_terms query context))"
    using n m by simp
  from top show ?thesis
  proof
    assume "?e \<in> set (retrieve_from_simple_index index query context)"
    with ids show ?thesis by blast
  next
    assume "length (retrieve_from_simple_index index query context) = 3
        \<and> (\<forall>r \<in> set (retrieve_from_simple_index index query context).
              - relevance_score r \<le> - relevance_score ?e)"
    then show ?thesis unfolding score neg_le_iff_le by (intro disjI2)
  qed
qed

lemma add_to_knowledge_base_facts:
  assumes call: "add_to_knowledge_base md5 str_float t_id t_created txt source item_id (self, w)
                   = (new_id, self', w')"
  shows "(\<forall>i. item_id = Some i \<and> i \<noteq> [] \<longrightarrow> new_id = i)
    \<and> (item_id = None \<or> item_id = Some [] \<longrightarrow>
         new_id = take 12 (md5 (txt @ ''_'' @ source @ ''_'' @ str_float t_id)))
    \<and> map_of (knowledge_index self') new_id
         = Some \<lparr>ki_text = Some txt, ki_source = Some source, ki_created_at = Some t_created\<rparr>
    \<and> (new_id \<notin> fst ` set (knowledge_index self) \<longrightarrow>
         knowledge_index self' = knowledge_index self
           @ [(new_id, \<lparr>ki_text = Some txt, ki_source = Some source,
                         ki_created_at = Some t_created\<rparr>)]
         \<and> length (knowledge_index self') = length (knowledge_index self) + 1)
    \<and> (new_id \<in> fst ` set (knowledge_index self) \<longrightarrow>
         length (knowledge_index self') = length (knowledge_index self))
    \<and> (disk_writable w \<longrightarrow>
         index_file w' = Stored (knowledge_index self')
         \<and> fst (load_knowledge_index ts w') = knowledge_index self')
    \<and> (\<forall>query context tm. tm \<in> qualifying_terms query context \<and> occurs_in tm (lower txt) \<longrightarrow>
         (\<exists>r \<in> set (retrieve_from_simple_index (knowledge_index self') query context).
            info_id r = new_id \<and> info_text r = txt \<and> info_source r = source)
         \<or> (length (retrieve_from_simple_index (knowledge_index self') query context) = 3
            \<and> (\<forall>r \<in> set (retrieve_from_simple_index (knowledge_index self') query context).
                  real (card {tm \<in> qualifying_terms query context. occurs_in tm (lower txt)})
                    / real (card (qualifying_terms query context)) \<le> relevance_score r)))"
proof -
  let ?item = "\<lparr>ki_text = Some txt, ki_source = Some source, ki_created_at = Some t_created\<rparr>"
  from call have
    id: "new_id = (case item_id of
                     None \<Rightarrow> take 12 (md5 (txt @ ''_'' @ source @ ''_'' @ str_float t_id))
                   | Some i \<Rightarrow> if i = []
                       then take 12 (md5 (txt @ ''_'' @ source @ ''_'' @ str_float t_id)) else i)"
    by (auto simp: add_to_knowledge_base_def Let_def split: option.splits)
  from call have idx: "knowledge_index self' = dict_set new_id ?item (knowledge_index self)"
    by (auto simp: add_to_knowledge_base_def Let_def)
  from call have w': "w' = save_knowledge_index (knowledge_index self') w"
    by (auto simp: add_to_knowledge_base_def Let_def)
  have a: "\<forall>i. item_id = Some i \<and> i \<noteq> [] \<longrightarrow> new_id = i"
    by (simp add: id)
  have b: "item_id = None \<or> item_id = Some [] \<longrightarrow>
         new_id = take 12 (md5 (txt @ ''_'' @ source @ ''_'' @ str_float t_id))"
    by (auto simp: id)
  have c: "map_of (knowledge_index self') new_id = Some ?item"
    by (simp add: idx map_of_dict_set)
  have d: "new_id \<notin> fst ` set (knowledge_index self) \<longrightarrow>
         knowledge_index self' = knowledge_index self @ [(new_id, ?item)]
         \<and> length (knowledge_index self') = length (knowledge_index self) + 1"
    by (simp add: idx dict_set_fresh)
  have e: "new_id \<in> fst ` set (knowledge_index self) \<longrightarrow>
         length (knowledge_index self') = length (knowledge_index self)"
    by (simp add: idx length_dict_set_present)
  have f: "disk_writable w \<longrightarrow>
         index_file w' = Stored (knowledge_index self')
         \<and> fst (load_knowledge_index ts w') = knowledge_index self'"
    using save_then_load[of w "knowledge_index self'" ts] by (simp add: w')
  have mem: "(new_id, ?item) \<in> set (knowledge_index self')"
    by (simp add: idx dict_set_member)
  have g: "\<forall>query context tm. tm \<in> qualifying_terms query context \<and> occurs_in tm (lower txt) \<longrightarrow>
         (\<exists>r \<in> set (retrieve_from_simple_index (knowledge_index self') query context).
            info_id r = new_id \<and> info_text r = txt \<and> info_source r = source)
         \<or> (length (retrieve_from_simple_index (knowledge_index self') query context) = 3
            \<and> (\<forall>r \<in> set (retrieve_from_simple_index (knowledge_index self') query context).
                  real (card {tm \<in> qualifying_terms query context. occurs_in tm (lower txt)})
                    / real (card (qualifying_terms query context)) \<le> relevance_score r))"
    using added_item_retrieved[OF mem] by blast
  show ?thesis by (intro conjI) (rule a b c d e f g)+
qed

lemma load_files_append: "load_files (xs @ ys) = load_files xs @ load_files ys"
  by (induction xs) (auto split: knowledge_file.splits)

lemma startswith_append: "startswith (p @ s) p"
  by (simp add: startswith_iff)

lemma endswith_append: "endswith (s @ suffix) suffix"
  by (simp add: endswith_def startswith_append)






lemma add_knowledge_fail:
  "encode (title @ ''. '' @ content) = Inl err \<Longrightarrow>
   add_knowledge encode title content topic source (kb, d) = (False, kb, d)"
  by (simp add: add_knowledge_def)

lemma add_knowledge_ok:
  assumes "encode (title @ ''. '' @ content) = Inr emb"
  shows "add_knowledge encode title content topic source (kb, d)
     = (True,
        kb @ [\<lparr>it_title = title, it_topic = Some topic, it_content = content,
                it_source = source, it_embedding = Some emb\<rparr>],
        save_knowledge_item
          [\<lparr>it_title = title, it_topic = Some topic, it_content = content,
             it_source = source, it_embedding = Some emb\<rparr>]
          (replace_spaces topic @ ''_'' @ str_nat (Suc (length kb)) @ ''.json'') d)"
  using assms by (simp add: add_knowledge_def Let_def)

lemma save_fresh_then_load:
  assumes "can_write d (name @ ''.json'')" "name @ ''.json'' \<notin> fst ` set (dir_files d)"
  shows "load_files (dir_files (save_knowledge_item items (name @ ''.json'') d))
     = load_files (dir_files d) @ items"
proof -
  have "endswith (name @ ''.json'') ''.json''" by (rule endswith_append)
  then show ?thesis
    using assms by (simp add: save_knowledge_item_def dict_set_fresh load_files_append)
qed




text \<open>
  C9, as the code has it. \<open>add_to_knowledge_base\<close> uses a non-empty supplied id and
  otherwise the first 12 characters of the digest of text, source and clock reading; the
  index then maps that id to the new item. A fresh id appends one record; an id already
  in the index replaces its record and the count stays. With a writable disk the file
  holds the new index and a reload returns it. For a query with a qualifying term that
  occurs in the lowercased text, the new item is among the results unless three results
  with scores at least as high fill the list. \<open>add_knowledge\<close> of the pipeline appends
  one item when the encoder answers (and a reload reads one more item when its file is
  new and can be written), and changes nothing when the encoder raises.
\<close>

theorem knowledge_base_add:
  assumes call: "add_to_knowledge_base md5 str_float t_id t_created txt source item_id (self, w)
                   = (new_id, self', w')"
  shows "(\<forall>i. item_id = Some i \<and> i \<noteq> [] \<longrightarrow> new_id = i)
    \<and> (item_id = None \<or> item_id = Some [] \<longrightarrow>
         new_id = take 12 (md5 (txt @ ''_'' @ source @ ''_'' @ str_float t_id)))
    \<and> map_of (knowledge_index self') new_id
         = Some \<lparr>ki_text = Some txt, ki_source = Some source, ki_created_at = Some t_created\<rparr>
    \<and> (new_id \<notin> fst ` set (knowledge_index self) \<longrightarrow>
         knowledge_index self' = knowledge_index self
           @ [(new_id, \<lparr>ki_text = Some txt, ki_source = Some source,
                         ki_created_at = Some t_created\<rparr>)]
         \<and> length (knowledge_index self') = length (knowledge_index self) + 1)
    \<and> (new_id \<in> fst ` set (knowledge_index self) \<longrightarrow>
         length (knowledge_index self') = length (knowledge_index self))
    \<and> (disk_writable w \<longrightarrow>
         index_file w' = Stored (knowledge_index self')
         \<and> fst (load_knowledge_index ts w') = knowledge_index self')
    \<and> (\<forall>query context tm. tm \<in> qualifying_terms query context \<and> occurs_in tm (lower txt) \<longrightarrow>
         (\<exists>r \<in> set (retrieve_from_simple_index (knowledge_index self') query context).
            info_id r = new_id \<and> info_text r = txt \<and> info_source r = source)
         \<or> (length (retrieve_from_simple_index (knowledge_index self') query context) = 3
            \<and> (\<forall>r \<in> set (retrieve_from_simple_index (knowledge_index self') query context).
                  real (card {tm \<in> qualifying_terms query context. occurs_in tm (lower txt)})
                    / real (card (qualifying_terms query context)) \<le> relevance_score r)))
    \<and> (\<forall>err. encode (title @ ''. '' @ content) = Inl err \<longrightarrow>
         add_knowledge encode title content topic source (kb, d) = (False, kb, d))
    \<and> (\<forall>emb. encode (title @ ''. '' @ content) = Inr emb \<longrightarrow>
         add_knowledge encode title content topic source (kb, d)
           = (True,
              kb @ [\<lparr>it_title = title, it_topic = Some topic, it_content = content,
                      it_source = source, it_embedding = Some emb\<rparr>],
              save_knowledge_item
                [\<lparr>it_title = title, it_topic = Some topic, it_content = content,
                   it_source = source, it_embedding = Some emb\<rparr>]
                (replace_spaces topic @ ''_'' @ str_nat (Suc (length kb)) @ ''.json'') d)
         \<and> (can_write d (replace_spaces topic @ ''_'' @ str_nat (Suc (length kb)) @ ''.json'')
            \<and> replace_spaces topic @ ''_'' @ str_nat (Suc (length kb)) @ ''.json''
                 \<notin> fst ` set (dir_files d) \<longrightarrow>
            load_files (dir_files (snd (snd
                (add_knowledge encode title content topic source (kb, d)))))
              = load_files (dir_files d)
                  @ [\<lparr>it_title = title, it_topic = Some topic, it_content = content,
                       it_source = source, it_embedding = Some emb\<rparr>]))"
proof -
  note facts = add_to_knowledge_base_facts[OF call, of ts]
  note a = facts[THEN conjunct1]
  note b = facts[THEN conjunct2, THEN conjunct1]
  note c = facts[THEN conjunct2, THEN conjunct2, THEN conjunct1]
  note d = facts[THEN conjunct2, THEN conjunct2, THEN conjunct2, THEN conjunct1]
  note e = facts[THEN conjunct2, THEN conjunct2, THEN conjunct2, THEN conjunct2, THEN conjunct1]
  note f = facts[THEN conjunct2, THEN conjunct2, THEN conjunct2, THEN conjunct2, THEN conjunct2,
                 THEN conjunct1]
  note g = facts[THEN conjunct2, THEN conjunct2, THEN conjunct2, THEN conjunct2, THEN conjunct2,
                 THEN conjunct2]
  have h: "\<forall>err. encode (title @ ''. '' @ content) = Inl err \<longrightarrow>
         add_knowledge encode title content topic source (kb, d) = (False, kb, d)"
    by (intro allI impI) (rule add_knowledge_fail)
  have i: "\<forall>emb. encode (title @ ''. '' @ content) = Inr emb \<longrightarrow>
         add_knowledge encode title content topic source (kb, d)
           = (True,
              kb @ [\<lparr>it_title = title, it_topic = Some topic, it_content = content,
                      it_source = source, it_embedding = Some emb\<rparr>],
              save_knowledge_item
                [\<lparr>it_title = title, it_topic = Some topic, it_content = content,
                   it_source = source, it_embedding = Some emb\<rparr>]
                (replace_spaces topic @ ''_'' @ str_nat (Suc (length kb)) @ ''.json'') d)
         \<and> (can_write d (replace_spaces topic @ ''_'' @ str_nat (Suc (length kb)) @ ''.json'')
            \<and> replace_spaces topic @ ''_'' @ str_nat (Suc (length kb)) @ ''.json''
                 \<notin> fst ` set (dir_files d) \<longrightarrow>
            load_files (dir_files (snd (snd
                (add_knowledge encode title content topic source (kb, d)))))
              = load_files (dir_files d)
                  @ [\<lparr>it_title = title, it_topic = Some topic, it_content = content,
                       it_source = source, it_embedding = Some emb\<rparr>])"
  proof (intro allI impI conjI)
    fix emb assume enc: "encode (title @ ''. '' @ content) = Inr emb"
    show "add_knowledge encode title content topic source (kb, d)
           = (True,
              kb @ [\<lparr>it_title = title, it_topic = Some topic, it_content = content,
                      it_source = source, it_embedding = Some emb\<rparr>],
              save_knowledge_item
                [\<lparr>it_title = title, it_topic = Some topic, it_content = content,
                   it_source = source, it_embedding = Some emb\<rparr>]
                (replace_spaces topic @ ''_'' @ str_nat (Suc (length kb)) @ ''.json'') d)"
      using enc by (rule add_knowledge_ok)
    assume fresh: "can_write d (replace_spaces topic @ ''_'' @ str_nat (Suc (length kb)) @ ''.json'')
            \<and> replace_spaces topic @ ''_'' @ str_nat (Suc (length kb)) @ ''.json''
                 \<notin> fst ` set (dir_files d)"
    have stored: "load_files (dir_files (save_knowledge_item
              [\<lparr>it_title = title, it_topic = Some topic, it_content = content,
                 it_source = source, it_embedding = Some emb\<rparr>]
              (replace_spaces topic @ ''_'' @ str_nat (Suc (length kb)) @ ''.json'') d))
          = load_files (dir_files d)
              @ [\<lparr>it_title = title, it_topic = Some topic, it_content = content,
                   it_source = source, it_embedding = Some emb\<rparr>]"
    proof -
      have name: "(replace_spaces topic @ ''_'' @ str_nat (Suc (length kb))) @ ''.json''
          = replace_spaces topic @ ''_'' @ str_nat (Suc (length kb)) @ ''.json''"
        by simp
      note load = save_fresh_then_load[of d
          "replace_spaces topic @ ''_'' @ str_nat (Suc (length kb))", unfolded name]
      from fresh[THEN conjunct1] fresh[THEN conjunct2] show ?thesis by (rule load)
    qed
    show "load_files (dir_files (snd (snd
                (add_knowledge encode title content topic source (kb, d)))))
              = load_files (dir_files d)
                  @ [\<lparr>it_title = title, it_topic = Some topic, it_content = content,
                       it_source = source, it_embedding = Some emb\<rparr>]"
      using stored
      by (simp only: add_knowledge_ok[where encode = encode and title = title
                 and content = content, OF enc] snd_conv)
  qed
  show ?thesis by (intro conjI) (rule a b c d e f g h i)+
qed

lemma overwriting_addition_lengths:
  "length (knowledge_index (fst proc_no_key)) = 2"
  "length (knowledge_index (fst (snd overwriting_addition))) = 2"
  "fst overwriting_addition = ''fallacies''"
  by code_simp+

text \<open>
  C9 as stated fails when the supplied id is already in the index: the record is
  replaced and the store holds as many records as before.
\<close>

theorem add_existing_id_counterexample:
  "length (knowledge_index (fst proc_no_key)) = 2
   \<and> length (knowledge_index (fst (snd overwriting_addition))) = 2
   \<and> fst overwriting_addition = ''fallacies''"
  by (simp add: overwriting_addition_lengths)

lemma sample_addition_facts:
  "fst sample_addition = ''Logical erro''"
  "''Logical erro'' \<notin> fst ` set (knowledge_index (fst proc_no_key))"
  "length (retrieve_from_simple_index (knowledge_index (fst (snd sample_addition))) question1 None) = 2"
  "str_in ''logical'' (lower ''Logical errors are everywhere'')"
  "''logical'' \<in> set (query_terms question1 None)"
  "disk_writable (snd proc_no_key)"
  by code_simp+

theorem knowledge_base_add_witness:
  "fst sample_addition = take 12 (plain_digest (''Logical errors are everywhere'' @ ''_'' @ ''Notes''
        @ ''_'' @ plain_str_float 1))
   \<and> length (knowledge_index (fst (snd sample_addition)))
        = length (knowledge_index (fst proc_no_key)) + 1
   \<and> fst (load_knowledge_index (0, 0, 0) (snd (snd sample_addition)))
        = knowledge_index (fst (snd sample_addition))
   \<and> (\<exists>r \<in> set (retrieve_from_simple_index (knowledge_index (fst (snd sample_addition)))
                    question1 None).
         info_id r = fst sample_addition \<and> info_text r = ''Logical errors are everywhere'')"
proof -
  have call: "add_to_knowledge_base plain_digest plain_str_float 1 2
      ''Logical errors are everywhere'' ''Notes'' None (fst proc_no_key, snd proc_no_key)
      = (fst sample_addition, fst (snd sample_addition), snd (snd sample_addition))"
    by (simp add: sample_addition_def)
  note facts = knowledge_base_add[OF call, of "(0, 0, 0)"]
  have tm: "''logical'' \<in> qualifying_terms question1 None
      \<and> occurs_in ''logical'' (lower ''Logical errors are everywhere'')"
    using sample_addition_facts(4,5) by (simp add: str_in_iff set_query_terms)
  from facts have a: "fst sample_addition
      = take 12 (plain_digest (''Logical errors are everywhere'' @ ''_'' @ ''Notes''
        @ ''_'' @ plain_str_float 1))"
    by blast
  from facts sample_addition_facts(2) have b: "length (knowledge_index (fst (snd sample_addition)))
        = length (knowledge_index (fst proc_no_key)) + 1"
    unfolding sample_addition_facts(1) by blast
  from facts sample_addition_facts(6) have c:
    "fst (load_knowledge_index (0, 0, 0) (snd (snd sample_addition)))
        = knowledge_index (fst (snd sample_addition))"
    by blast
  from facts tm have
    "(\<exists>r \<in> set (retrieve_from_simple_index (knowledge_index (fst (snd sample_addition)))
                    question1 None).
         info_id r = fst sample_addition \<and> info_text r = ''Logical errors are everywhere''
         \<and> info_source r = ''Notes'')
     \<or> (length (retrieve_from_simple_index (knowledge_index (fst (snd sample_addition)))
                    question1 None) = 3
        \<and> (\<forall>r \<in> set (retrieve_from_simple_index (knowledge_index (fst (snd sample_addition)))
                    question1 None).
              real (card {tm \<in> qualifying_terms question1 None.
                            occurs_in tm (lower ''Logical errors are everywhere'')})
                 / real (card (qualifying_terms question1 None)) \<le> relevance_score r))"
    by blast
  then have d: "\<exists>r \<in> set (retrieve_from_simple_index (knowledge_index (fst (snd sample_addition)))
                    question1 None).
         info_id r = fst sample_addition \<and> info_text r = ''Logical errors are everywhere''"
    using sample_addition_facts(3) by auto
  from a b c d show ?thesis by blast
qed

end
